theory Spec2Isabelle
  imports Complex_Main "HOL-Library.Signed_Division"
begin

unbundle bit_operations_syntax

section \<open>Numbers\<close>

text \<open>
  The C++ type \<^verbatim>\<open>float\<close> is read in two ways.

  In exact arithmetic, as \<^typ>\<open>real\<close>: for the functions of which the formula itself is
  the subject (the alignment functions, the cell of a grid, the scale of a window). Rounding, overflow to infinity and NaN are not part of this reading, and a
  theorem in it speaks about the formulas in the order in which the code evaluates them,
  not about the last bit of a result.

  As IEEE 754 binary32 (\<open>binary32\<close> below, rounding to nearest, ties to even): for
  \<open>FrameWithin\<close>, which chooses its branch by comparing two quotients and may divide by
  zero, and for the product and quotient by a scalar, where the question is whether the
  rounded operations undo each other. The vector type and its operators are defined once,
  for both readings.

  The C++ type \<^verbatim>\<open>int\<close> is modelled by \<^typ>\<open>int\<close>, with the 32-bit range written out where
  the code can leave it: the operations that have undefined behaviour in C++ (division
  by zero, signed overflow, an index outside a vector) return a \<open>fault\<close>.
\<close>

datatype fault = DivisionByZero | SignedOverflow | OutOfRange

definition INT_MAX :: int where
  "INT_MAX = 2147483647"

definition INT_MIN :: int where
  "INT_MIN = - 2147483648"

definition in_int :: "int \<Rightarrow> bool" where
  "in_int i = (INT_MIN \<le> i \<and> i \<le> INT_MAX)"

text \<open>
  \<^verbatim>\<open>a / b\<close> and \<^verbatim>\<open>a % b\<close> on \<^verbatim>\<open>int\<close>: the quotient is truncated towards zero and the
  remainder has the sign of the dividend (\<open>sdiv\<close> and \<open>smod\<close>). Both are undefined for
  \<open>b = 0\<close> and for \<open>INT_MIN / -1\<close>, whose quotient is not an \<^verbatim>\<open>int\<close>.
\<close>

definition int_div :: "int \<Rightarrow> int \<Rightarrow> fault + int" where
  "int_div a b =
     (if b = 0 then Inl DivisionByZero
      else if a = INT_MIN \<and> b = - 1 then Inl SignedOverflow
      else Inr (a sdiv b))"

definition int_mod :: "int \<Rightarrow> int \<Rightarrow> fault + int" where
  "int_mod a b =
     (if b = 0 then Inl DivisionByZero
      else if a = INT_MIN \<and> b = - 1 then Inl SignedOverflow
      else Inr (a smod b))"

definition int_mul :: "int \<Rightarrow> int \<Rightarrow> fault + int" where
  "int_mul a b = (if in_int (a * b) then Inr (a * b) else Inl SignedOverflow)"

definition int_add :: "int \<Rightarrow> int \<Rightarrow> fault + int" where
  "int_add a b = (if in_int (a + b) then Inr (a + b) else Inl SignedOverflow)"

section \<open>binary32\<close>

text \<open>
  A binary32 value: a finite one with its sign (\<open>True\<close> for minus) and its magnitude, an
  infinity with its sign, or NaN. There are two zeros. The finite values of the format
  are those that \<open>round32\<close> leaves as they are (\<open>is_binary32\<close>).

  \<open>round32 s r\<close> rounds the exact magnitude \<open>r\<close> of a result of sign \<open>s\<close>: to the nearest
  multiple of the unit in the last place of its binade (24 bits of significand, the
  exponent of the unit not below \<open>-149\<close>), a tie to the even multiple, and to infinity from
  \<open>2^128\<close> on.
\<close>

datatype binary32 = Finite bool real | Infinity bool | NaN

definition pow2 :: "int \<Rightarrow> real" where
  "pow2 e = (if 0 \<le> e then 2 ^ nat e else 1 / 2 ^ nat (- e))"

definition round_even :: "real \<Rightarrow> int" where
  "round_even q =
     (let f = \<lfloor>q\<rfloor>
      in if q - real_of_int f < 1 / 2 then f
         else if q - real_of_int f > 1 / 2 then f + 1
         else if even f then f else f + 1)"

definition ulp_exponent :: "real \<Rightarrow> int" where
  "ulp_exponent r = max (\<lfloor>log 2 r\<rfloor> - 23) (- 149)"

definition round32 :: "bool \<Rightarrow> real \<Rightarrow> binary32" where
  "round32 s r =
     (if r = 0 then Finite s 0
      else
        (let e = ulp_exponent r;
             v = real_of_int (round_even (r / pow2 e)) * pow2 e
         in if v \<ge> 2 ^ 128 then Infinity s else Finite s v))"


text \<open>
  The operations of IEEE 754 on these values: the exact result, rounded; the special
  cases for zeros, infinities and NaN as the standard has them. \<open>float32 r\<close> is the value
  of a literal or of a converted \<^verbatim>\<open>int\<close>. \<open>eq32\<close> is the comparison \<^verbatim>\<open>==\<close>.
\<close>

definition signed :: "bool \<Rightarrow> real \<Rightarrow> real" where
  "signed s m = (if s then - m else m)"

definition float32 :: "real \<Rightarrow> binary32" where
  "float32 r = round32 (r < 0) \<bar>r\<bar>"

fun neg32 :: "binary32 \<Rightarrow> binary32" where
  "neg32 (Finite s m) = Finite (\<not> s) m"
| "neg32 (Infinity s) = Infinity (\<not> s)"
| "neg32 NaN = NaN"

fun add32 :: "binary32 \<Rightarrow> binary32 \<Rightarrow> binary32" where
  "add32 (Finite s m) (Finite t n) =
     (let v = signed s m + signed t n
      in if v = 0 then Finite (m = 0 \<and> n = 0 \<and> s \<and> t) 0
         else round32 (v < 0) \<bar>v\<bar>)"
| "add32 (Finite s m) (Infinity t) = Infinity t"
| "add32 (Infinity s) (Finite t n) = Infinity s"
| "add32 (Infinity s) (Infinity t) = (if s = t then Infinity s else NaN)"
| "add32 _ _ = NaN"

fun mul32 :: "binary32 \<Rightarrow> binary32 \<Rightarrow> binary32" where
  "mul32 (Finite s m) (Finite t n) = round32 (s \<noteq> t) (m * n)"
| "mul32 (Finite s m) (Infinity t) = (if m = 0 then NaN else Infinity (s \<noteq> t))"
| "mul32 (Infinity s) (Finite t n) = (if n = 0 then NaN else Infinity (s \<noteq> t))"
| "mul32 (Infinity s) (Infinity t) = Infinity (s \<noteq> t)"
| "mul32 _ _ = NaN"

fun div32 :: "binary32 \<Rightarrow> binary32 \<Rightarrow> binary32" where
  "div32 (Finite s m) (Finite t n) =
     (if n = 0 then (if m = 0 then NaN else Infinity (s \<noteq> t))
      else round32 (s \<noteq> t) (m / n))"
| "div32 (Finite s m) (Infinity t) = Finite (s \<noteq> t) 0"
| "div32 (Infinity s) (Finite t n) = Infinity (s \<noteq> t)"
| "div32 _ _ = NaN"

fun less32 :: "binary32 \<Rightarrow> binary32 \<Rightarrow> bool" where
  "less32 (Finite s m) (Finite t n) = (signed s m < signed t n)"
| "less32 (Finite s m) (Infinity t) = (\<not> t)"
| "less32 (Infinity s) (Finite t n) = s"
| "less32 (Infinity s) (Infinity t) = (s \<and> \<not> t)"
| "less32 _ _ = False"

fun eq32 :: "binary32 \<Rightarrow> binary32 \<Rightarrow> bool" where
  "eq32 (Finite s m) (Finite t n) = (signed s m = signed t n)"
| "eq32 (Infinity s) (Infinity t) = (s = t)"
| "eq32 _ _ = False"

instantiation binary32 :: "{plus, minus, times, inverse, ord}"
begin

definition plus_binary32 :: "binary32 \<Rightarrow> binary32 \<Rightarrow> binary32" where
  "plus_binary32 a b = add32 a b"

definition minus_binary32 :: "binary32 \<Rightarrow> binary32 \<Rightarrow> binary32" where
  "minus_binary32 a b = add32 a (neg32 b)"

definition times_binary32 :: "binary32 \<Rightarrow> binary32 \<Rightarrow> binary32" where
  "times_binary32 a b = mul32 a b"

definition divide_binary32 :: "binary32 \<Rightarrow> binary32 \<Rightarrow> binary32" where
  "divide_binary32 a b = div32 a b"

definition inverse_binary32 :: "binary32 \<Rightarrow> binary32" where
  "inverse_binary32 a = div32 (Finite False 1) a"

definition less_binary32 :: "binary32 \<Rightarrow> binary32 \<Rightarrow> bool" where
  "less_binary32 a b = less32 a b"

definition less_eq_binary32 :: "binary32 \<Rightarrow> binary32 \<Rightarrow> bool" where
  "less_eq_binary32 a b = (less32 a b \<or> eq32 a b)"

instance ..

end


section \<open>ImVec2 and its operators (ImVec2Operators.h)\<close>

text \<open>
  \<open>ImVec2\<close> is the vector in exact arithmetic; \<open>binary32 Vec2\<close> is the vector of floats.
\<close>

datatype 'f Vec2 = ImVec2 (x: 'f) (y: 'f)

type_synonym ImVec2 = "real Vec2"

instantiation Vec2 :: (plus) plus
begin

definition plus_Vec2 :: "'a Vec2 \<Rightarrow> 'a Vec2 \<Rightarrow> 'a Vec2" where
  "plus_Vec2 lhs rhs = ImVec2 (x lhs + x rhs) (y lhs + y rhs)"

instance ..

end

instantiation Vec2 :: (minus) minus
begin

definition minus_Vec2 :: "'a Vec2 \<Rightarrow> 'a Vec2 \<Rightarrow> 'a Vec2" where
  "minus_Vec2 lhs rhs = ImVec2 (x lhs - x rhs) (y lhs - y rhs)"

instance ..

end

text \<open>\<^verbatim>\<open>operator*(const ImVec2&, float)\<close> and \<^verbatim>\<open>operator/(const ImVec2&, float)\<close>.\<close>

definition operator_mul :: "'f::times Vec2 \<Rightarrow> 'f \<Rightarrow> 'f Vec2" where
  "operator_mul lhs rhs = ImVec2 (x lhs * rhs) (y lhs * rhs)"

definition operator_div :: "'f::inverse Vec2 \<Rightarrow> 'f \<Rightarrow> 'f Vec2" where
  "operator_div lhs rhs = ImVec2 (x lhs / rhs) (y lhs / rhs)"

section \<open>Position (PositionTools.cpp)\<close>

definition RightAlign :: "ImVec2 \<Rightarrow> real \<Rightarrow> real \<Rightarrow> int \<Rightarrow> ImVec2 \<Rightarrow> ImVec2" where
  "RightAlign origin documentWidth lineHeight line objectDimensions =
     origin + ImVec2 documentWidth (real_of_int line * lineHeight) - objectDimensions"

definition LeftAlign :: "ImVec2 \<Rightarrow> real \<Rightarrow> int \<Rightarrow> ImVec2 \<Rightarrow> ImVec2" where
  "LeftAlign origin lineHeight line objectDimensions =
     origin - ImVec2 0 (lineHeight * real_of_int line) - ImVec2 0 (y objectDimensions)"

definition CenterAlign :: "ImVec2 \<Rightarrow> real \<Rightarrow> real \<Rightarrow> int \<Rightarrow> ImVec2 \<Rightarrow> ImVec2" where
  "CenterAlign origin documentWidth lineHeight line objectDimensions =
     (let x' = x origin + ((documentWidth - x objectDimensions) / 2);
          y' = y origin + real_of_int line * lineHeight
      in ImVec2 x' y')"

definition Center2D :: "ImVec2 \<Rightarrow> ImVec2 \<Rightarrow> ImVec2 \<Rightarrow> ImVec2" where
  "Center2D origin targetObjectDimensions centeredObjectDimensions =
     origin + ImVec2 ((x targetObjectDimensions - x centeredObjectDimensions) / 2)
                     ((y targetObjectDimensions - y centeredObjectDimensions) / 2)"

definition GridTranslocatedOrigin ::
  "ImVec2 \<Rightarrow> real \<Rightarrow> real \<Rightarrow> real \<Rightarrow> int \<Rightarrow> int \<Rightarrow> int \<Rightarrow> fault + ImVec2" where
  "GridTranslocatedOrigin origin cellWidth cellHeight gridlineWidth columns rows cellNumber =
     (let origin = origin + ImVec2 gridlineWidth gridlineWidth;
          horizontalDisplacement = cellWidth + gridlineWidth;
          verticalDisplacement = cellHeight + gridlineWidth
      in case int_div cellNumber rows of
           Inl f \<Rightarrow> Inl f
         | Inr row \<Rightarrow>
             (case int_mod cellNumber columns of
                Inl f \<Rightarrow> Inl f
              | Inr col \<Rightarrow>
                  (let x' = x origin + real_of_int col * horizontalDisplacement;
                       y' = y origin + real_of_int row * verticalDisplacement
                   in Inr (ImVec2 x' y'))))"

text \<open>
  \<open>FrameWithin\<close>, in binary32: the quotients, the comparison, the product with the \<^verbatim>\<open>int\<close>
  literal \<open>2\<close> and the difference are those of the floats.
\<close>

definition FrameWithin :: "binary32 Vec2 \<Rightarrow> binary32 Vec2 \<Rightarrow> binary32 \<Rightarrow> binary32 Vec2" where
  "FrameWithin outerFrame innerFrame padding =
     (let innerAspectRatio = x innerFrame / y innerFrame;
          outerAspectRatio = x outerFrame / y outerFrame
      in if innerAspectRatio > outerAspectRatio then
           (let x' = x outerFrame - float32 2 * padding;
                y' = x' / innerAspectRatio
            in ImVec2 x' y')
         else
           (let y' = y outerFrame - float32 2 * padding;
                x' = y' * innerAspectRatio
            in ImVec2 x' y'))"

section \<open>Color (ColorTools.cpp)\<close>

datatype ImVec4 = ImVec4 real real real real

definition RGBtoImVec4 :: "real \<Rightarrow> real \<Rightarrow> real \<Rightarrow> real \<Rightarrow> ImVec4" where
  "RGBtoImVec4 r g b a = ImVec4 (r / 255) (g / 255) (b / 255) a"

section \<open>Window (Window.h, Window.cpp)\<close>

definition DEFAULT_BG :: ImVec4 where
  "DEFAULT_BG = RGBtoImVec4 40 40 40 1"

definition DEFAULT_VIEWPORT_WIDTH :: real where
  "DEFAULT_VIEWPORT_WIDTH = 3840"

definition DEFAULT_VIEWPORT_HEIGHT :: real where
  "DEFAULT_VIEWPORT_HEIGHT = 2160"

text \<open>
  What the class reads from Dear ImGui: the work size of the main viewport
  (\<^verbatim>\<open>ImGui::GetMainViewport()->WorkSize\<close>), the time (\<^verbatim>\<open>ImGui::GetTime()\<close>) and the
  value of the flag \<^verbatim>\<open>ImGuiWindowFlags_NoBackground\<close>, which imgui.h defines and which is
  taken as given here.
\<close>

record ImGui =
  WorkSize :: ImVec2
  Time :: real
  ImGuiWindowFlags_NoBackground :: int

datatype ImGuiCol = ImGuiCol_WindowBg

datatype ImGuiCond = ImGuiCond_FirstUseEver

text \<open>
  The effects of a member function, in the order in which it has them: a call into
  Dear ImGui, or an assignment to a data member (named by the member).
\<close>

datatype ImGui_call =
    GetMainViewport
  | GetTime
  | PushStyleColor ImGuiCol ImVec4
  | PopStyleColor
  | SetNextWindowPos ImVec2 ImGuiCond
  | SetNextWindowSize ImVec2 ImGuiCond
  | Begin string int
  | End

datatype effect = Call ImGui_call | Assign string

record Window =
  title :: string
  designedWidth :: real
  designedHeight :: real
  designedPositionX :: real
  designedPositionY :: real
  width :: real
  height :: real
  dimensions :: ImVec2
  position :: ImVec2
  scaleX :: real
  scaleY :: real
  scaleAvg :: real
  previousViewportWidth :: real
  previousViewportHeight :: real
  currentTime :: real
  hasBackground :: bool
  backgroundColor :: ImVec4
  flags :: int

text \<open>The constructor, with the default member initializers of the class.\<close>

definition Window_Window :: "string \<Rightarrow> real \<Rightarrow> real \<Rightarrow> real \<Rightarrow> real \<Rightarrow> Window" where
  "Window_Window t dWidth dHeight posX posY =
     \<lparr> title = t,
       designedWidth = dWidth,
       designedHeight = dHeight,
       designedPositionX = posX,
       designedPositionY = posY,
       width = dWidth,
       height = dHeight,
       dimensions = ImVec2 dWidth dHeight,
       position = ImVec2 posX posY,
       scaleX = 1,
       scaleY = 1,
       scaleAvg = 1,
       previousViewportWidth = DEFAULT_VIEWPORT_WIDTH,
       previousViewportHeight = DEFAULT_VIEWPORT_HEIGHT,
       currentTime = 0,
       hasBackground = True,
       backgroundColor = DEFAULT_BG,
       flags = 0 \<rparr>"

definition updateScale :: "ImGui \<Rightarrow> Window \<Rightarrow> effect list \<times> Window" where
  "updateScale imgui this =
     (let viewportWidth = x (WorkSize imgui);
          viewportHeight = y (WorkSize imgui);
          altered = False;
          (e1, this, altered) =
            (if viewportWidth \<noteq> previousViewportWidth this then
               ([Assign ''scaleX'', Assign ''previousViewportWidth''],
                this\<lparr>scaleX := viewportWidth / DEFAULT_VIEWPORT_WIDTH,
                     previousViewportWidth := viewportWidth\<rparr>,
                True)
             else ([], this, altered));
          (e2, this, altered) =
            (if viewportHeight \<noteq> previousViewportHeight this then
               ([Assign ''scaleY'', Assign ''previousViewportHeight''],
                this\<lparr>scaleY := viewportHeight / DEFAULT_VIEWPORT_HEIGHT,
                     previousViewportHeight := viewportHeight\<rparr>,
                True)
             else ([], this, altered));
          (e3, this) =
            (if altered then
               ([Assign ''scaleAvg'', Assign ''dimensions'', Assign ''position''],
                this\<lparr>scaleAvg := (scaleX this + scaleY this) * 0.5,
                     dimensions := ImVec2 (designedWidth this * scaleX this)
                                          (designedHeight this * scaleY this),
                     position := ImVec2 (designedPositionX this * scaleX this)
                                        (designedPositionY this * scaleY this)\<rparr>)
             else ([], this))
      in (Call GetMainViewport # e1 @ e2 @ e3, this))"

text \<open>
  \<open>buildStart\<close>: the scale update is compiled in only when the macro \<^verbatim>\<open>DEBUG\<close> is defined.
\<close>

definition buildStart :: "bool \<Rightarrow> ImGui \<Rightarrow> Window \<Rightarrow> effect list \<times> Window" where
  "buildStart DEBUG imgui this =
     (let (e1, this) = (if DEBUG then updateScale imgui this else ([], this));
          currentFlags = flags this;
          (e2, currentFlags) =
            (if \<not> hasBackground this then
               ([], currentFlags OR ImGuiWindowFlags_NoBackground imgui)
             else
               ([Call (PushStyleColor ImGuiCol_WindowBg (backgroundColor this))], currentFlags));
          e3 = [Call (SetNextWindowPos (position this) ImGuiCond_FirstUseEver),
                Call (SetNextWindowSize (dimensions this) ImGuiCond_FirstUseEver),
                Call (Begin (title this) currentFlags)];
          e4 = (if hasBackground this then [Call PopStyleColor] else [])
      in (e1 @ e2 @ e3 @ e4, this))"

definition buildEnd :: "Window \<Rightarrow> effect list \<times> Window" where
  "buildEnd this = ([Call End], this)"

text \<open>
  \<open>render\<close>. The pure virtual \<open>draw\<close> is a parameter: from the window it has whatever
  effects it has (of a type left open), leaves the window in some state, and either
  returns or throws. No function of the class catches an exception, so one thrown by
  \<open>draw\<close> leaves \<open>render\<close> at the call.
\<close>

datatype exception = runtime_error string

datatype 'c step = Own effect | Content 'c

definition render ::
  "bool \<Rightarrow> ImGui \<Rightarrow> (Window \<Rightarrow> 'c list \<times> Window \<times> exception option) \<Rightarrow> Window
     \<Rightarrow> 'c step list \<times> Window \<times> exception option" where
  "render DEBUG imgui draw this =
     (let e0 = [Call GetTime, Assign ''currentTime''];
          this = this\<lparr>currentTime := Time imgui\<rparr>;
          (e1, this) = buildStart DEBUG imgui this;
          (c, this, thrown) = draw this
      in case thrown of
           Some ex \<Rightarrow> (map Own (e0 @ e1) @ map Content c, this, Some ex)
         | None \<Rightarrow>
             (let (e2, this) = buildEnd this
              in (map Own (e0 @ e1) @ map Content c @ map Own e2, this, None)))"

text \<open>
  Two callbacks to run \<open>render\<close> on: a \<open>draw\<close> that has one effect and returns, and a \<open>draw\<close>
  that throws at once, as one that calls \<^verbatim>\<open>Texture::Load\<close> on a missing file does.
\<close>

definition returning_draw :: "Window \<Rightarrow> unit list \<times> Window \<times> exception option" where
  "returning_draw this = ([()], this, None)"

definition throwing_draw :: "Window \<Rightarrow> unit list \<times> Window \<times> exception option" where
  "throwing_draw this =
     ([], this, Some (runtime_error ''TextureLoader.LoadTexture: Failed to load texture''))"

section \<open>Row-major placement\<close>

text \<open>
  The conventional placement of cell \<open>cellNumber\<close> in a grid, for comparison with
  \<open>GridTranslocatedOrigin\<close>: \<open>row = cellNumber / columns\<close> and \<open>col = cellNumber % columns\<close>,
  with the integer operations of C++.
\<close>

definition GridRowMajorOrigin ::
  "ImVec2 \<Rightarrow> real \<Rightarrow> real \<Rightarrow> real \<Rightarrow> int \<Rightarrow> int \<Rightarrow> int \<Rightarrow> fault + ImVec2" where
  "GridRowMajorOrigin origin cellWidth cellHeight gridlineWidth columns rows cellNumber =
     (case int_div cellNumber columns of
        Inl f \<Rightarrow> Inl f
      | Inr row \<Rightarrow>
          (case int_mod cellNumber columns of
             Inl f \<Rightarrow> Inl f
           | Inr col \<Rightarrow>
               Inr (ImVec2
                 (x origin + gridlineWidth + real_of_int col * (cellWidth + gridlineWidth))
                 (y origin + gridlineWidth + real_of_int row * (cellHeight + gridlineWidth)))))"

section \<open>Draw (DrawTools.cpp)\<close>

text \<open>
  \<open>TextureData\<close> (TextureTools.h); its members \<^verbatim>\<open>id\<close>, \<^verbatim>\<open>width\<close> and \<^verbatim>\<open>height\<close> carry a
  prefix here, the plain names being taken. A call of \<^verbatim>\<open>Draw::Image\<close> is an effect of
  \<open>PopulateGrid\<close>, kept with its arguments.
\<close>

record TextureData =
  tex_id :: nat
  tex_width :: int
  tex_height :: int

datatype draw_call = Draw_Image TextureData ImVec2 ImVec2 real

text \<open>
  \<^verbatim>\<open>images[i]\<close> on a \<^verbatim>\<open>std::vector\<close>: undefined outside the vector. \<^verbatim>\<open>int imageCount =
  images.size()\<close> narrows the size to 32 bits, two's complement.
\<close>

definition vector_at :: "'a list \<Rightarrow> int \<Rightarrow> fault + 'a" where
  "vector_at v i = (if 0 \<le> i \<and> i < int (length v) then Inr (v ! nat i) else Inl OutOfRange)"

definition size_to_int :: "nat \<Rightarrow> int" where
  "size_to_int n = (int n + 2 ^ 31) mod 2 ^ 32 - 2 ^ 31"

text \<open>
  The two loops of \<open>PopulateGrid\<close>. The inner loop ends at the end of a row or leaves the
  function by \<^verbatim>\<open>return\<close>. The increments of \<open>currentColumn\<close>, \<open>currentRow\<close> and \<open>cellIndex\<close>
  are taken below a bound that is an \<^verbatim>\<open>int\<close> and cannot overflow; the index
  \<^verbatim>\<open>currentRow * columns + currentColumn\<close> is computed with the overflow checked.
\<close>

datatype loop_exit = LoopEnd | Returned

function PopulateGrid_columns ::
  "TextureData list \<Rightarrow> ImVec2 \<Rightarrow> int \<Rightarrow> real \<Rightarrow> real \<Rightarrow> ImVec2 \<Rightarrow> int \<Rightarrow> int
     \<Rightarrow> int \<Rightarrow> int \<Rightarrow> draw_call list \<Rightarrow> fault + loop_exit \<times> int \<times> draw_call list" where
  "PopulateGrid_columns images origin columns horizontalCellDisplacement verticalCellDisplacement
       cellFrameSize imageCount currentRow currentColumn cellIndex out =
     (if currentColumn < columns then
        (if cellIndex \<ge> imageCount then Inr (Returned, cellIndex, out)
         else
           (let anchor = origin + ImVec2 (real_of_int currentColumn * horizontalCellDisplacement)
                                         (real_of_int currentRow * verticalCellDisplacement)
            in case int_mul currentRow columns of
                 Inl f \<Rightarrow> Inl f
               | Inr p \<Rightarrow>
                   (case int_add p currentColumn of
                      Inl f \<Rightarrow> Inl f
                    | Inr i \<Rightarrow>
                        (case vector_at images i of
                           Inl f \<Rightarrow> Inl f
                         | Inr sprite \<Rightarrow>
                             PopulateGrid_columns images origin columns horizontalCellDisplacement
                               verticalCellDisplacement cellFrameSize imageCount currentRow
                               (currentColumn + 1) (cellIndex + 1)
                               (out @ [Draw_Image sprite anchor cellFrameSize 0])))))
      else Inr (LoopEnd, cellIndex, out))"
  by pat_completeness auto
termination
  by (relation "measure (\<lambda>(images, origin, columns, hdisp, vdisp, cfs, imageCount, currentRow,
         currentColumn, cellIndex, out). nat (columns - currentColumn))") auto

function PopulateGrid_rows ::
  "TextureData list \<Rightarrow> ImVec2 \<Rightarrow> int \<Rightarrow> int \<Rightarrow> real \<Rightarrow> real \<Rightarrow> ImVec2 \<Rightarrow> int
     \<Rightarrow> int \<Rightarrow> int \<Rightarrow> draw_call list \<Rightarrow> fault + draw_call list" where
  "PopulateGrid_rows images origin columns rows horizontalCellDisplacement verticalCellDisplacement
       cellFrameSize imageCount currentRow cellIndex out =
     (if currentRow < rows then
        (case PopulateGrid_columns images origin columns horizontalCellDisplacement
                verticalCellDisplacement cellFrameSize imageCount currentRow 0 cellIndex out of
           Inl f \<Rightarrow> Inl f
         | Inr (Returned, cellIndex, out) \<Rightarrow> Inr out
         | Inr (LoopEnd, cellIndex, out) \<Rightarrow>
             PopulateGrid_rows images origin columns rows horizontalCellDisplacement
               verticalCellDisplacement cellFrameSize imageCount (currentRow + 1) cellIndex out)
      else Inr out)"
  by pat_completeness auto
termination
  by (relation "measure (\<lambda>(images, origin, columns, rows, hdisp, vdisp, cfs, imageCount, currentRow,
         cellIndex, out). nat (rows - currentRow))") auto

definition PopulateGrid ::
  "TextureData list \<Rightarrow> ImVec2 \<Rightarrow> int \<Rightarrow> int \<Rightarrow> real \<Rightarrow> real \<Rightarrow> real \<Rightarrow> fault + draw_call list" where
  "PopulateGrid images origin columns rows cellWidth cellHeight gridlineWidth =
     (let origin = origin + ImVec2 gridlineWidth gridlineWidth;
          horizontalCellDisplacement = cellWidth + gridlineWidth;
          verticalCellDisplacement = cellHeight + gridlineWidth;
          cellFrameSize = ImVec2 cellWidth cellHeight;
          imageCount = size_to_int (length images);
          cellIndex = 0
      in PopulateGrid_rows images origin columns rows horizontalCellDisplacement
           verticalCellDisplacement cellFrameSize imageCount 0 cellIndex [])"


declare PopulateGrid_columns.simps [simp del]

declare PopulateGrid_rows.simps [simp del]

text \<open>
  The call that draws image \<open>k\<close> into cell \<open>k\<close> of a grid filled row by row: the cell in
  row \<open>k div columns\<close> and column \<open>k mod columns\<close>.
\<close>

definition cell_call ::
  "TextureData list \<Rightarrow> ImVec2 \<Rightarrow> int \<Rightarrow> real \<Rightarrow> real \<Rightarrow> ImVec2 \<Rightarrow> nat \<Rightarrow> draw_call" where
  "cell_call images origin columns hdisp vdisp cfs k =
     Draw_Image (images ! k)
       (origin + ImVec2 (real_of_int (int k mod columns) * hdisp) (real_of_int (int k div columns) * vdisp))
       cfs 0"

section \<open>Grid cells\<close>



text \<open>
  C10. In a square grid (\<open>columns = rows = n\<close>, \<open>n > 0\<close>) \<open>GridTranslocatedOrigin\<close> places
  every cell where the row-major rule places it: the quotient by \<open>rows\<close> is the quotient
  by \<open>columns\<close>.
\<close>

theorem GridTranslocatedOrigin_square:
  assumes "0 < n"
  shows "GridTranslocatedOrigin origin cw ch gl n n cellNumber =
           GridRowMajorOrigin origin cw ch gl n n cellNumber
         \<and> GridRowMajorOrigin origin cw ch gl n n cellNumber =
           Inr (ImVec2 (x origin + gl + real_of_int (cellNumber smod n) * (cw + gl))
                       (y origin + gl + real_of_int (cellNumber sdiv n) * (ch + gl)))"
  using assms
  by (simp add: GridTranslocatedOrigin_def GridRowMajorOrigin_def int_div_def int_mod_def
      plus_Vec2_def Let_def)

theorem GridTranslocatedOrigin_square_witness:
  "GridTranslocatedOrigin (ImVec2 0 0) 10 10 2 3 3 7 = GridRowMajorOrigin (ImVec2 0 0) 10 10 2 3 3 7
   \<and> GridRowMajorOrigin (ImVec2 0 0) 10 10 2 3 3 7 = Inr (ImVec2 14 26)"
proof -
  have "(7::int) sdiv 3 = 2" "(7::int) smod 3 = 1"
    by (simp_all add: signed_divide_int_def signed_modulo_int_def)
  then show ?thesis
    using GridTranslocatedOrigin_square [of 3 "ImVec2 0 0" 10 10 2 7] by simp
qed

text \<open>
  Off the square the two rules part: with 3 columns and 2 rows, cell 2 belongs to row 0
  of the row-major grid, and \<open>GridTranslocatedOrigin\<close> puts it in row \<open>2 / 2 = 1\<close>.
\<close>

lemma GridTranslocatedOrigin_oblong:
  "GridTranslocatedOrigin (ImVec2 0 0) 10 10 2 3 2 2 = Inr (ImVec2 26 14)"
  "GridRowMajorOrigin (ImVec2 0 0) 10 10 2 3 2 2 = Inr (ImVec2 26 2)"
proof -
  have "(2::int) sdiv 2 = 1" "(2::int) smod 3 = 2" "(2::int) sdiv 3 = 0"
    by (simp_all add: signed_divide_int_def signed_modulo_int_def)
  then show "GridTranslocatedOrigin (ImVec2 0 0) 10 10 2 3 2 2 = Inr (ImVec2 26 14)"
    and "GridRowMajorOrigin (ImVec2 0 0) 10 10 2 3 2 2 = Inr (ImVec2 26 2)"
    by (simp_all add: GridTranslocatedOrigin_def GridRowMajorOrigin_def int_div_def int_mod_def
        plus_Vec2_def Let_def INT_MIN_def)
qed

section \<open>Alignment\<close>

text \<open>
  C5. \<open>LeftAlign\<close> returns \<open>(O.x, O.y - h * l - S.y)\<close>: it subtracts from the \<open>y\<close> of the
  origin. \<open>RightAlign\<close> returns \<open>O + (w, l * h) - S\<close>, component by component, and
  \<open>CenterAlign\<close> returns \<open>(O.x + (w - S.x) / 2, O.y + l * h)\<close>: both add \<open>l * h\<close>.
\<close>

theorem document_alignment:
  "LeftAlign origin h l S = ImVec2 (x origin) (y origin - h * real_of_int l - y S)
   \<and> RightAlign origin w h l S = origin + ImVec2 w (real_of_int l * h) - S
   \<and> RightAlign origin w h l S =
       ImVec2 (x origin + w - x S) (y origin + real_of_int l * h - y S)
   \<and> CenterAlign origin w h l S =
       ImVec2 (x origin + (w - x S) / 2) (y origin + real_of_int l * h)"
  by (simp add: LeftAlign_def RightAlign_def CenterAlign_def plus_Vec2_def minus_Vec2_def)

text \<open>
  C7. The object that \<open>Center2D\<close> places has its centre at the centre of the target:
  \<open>Center2D(O, T, S) + S / 2 = O + T / 2\<close>, in exact arithmetic.
\<close>

theorem Center2D_centre:
  "Center2D origin T S + operator_div S 2 = origin + operator_div T 2"
  by (simp add: Center2D_def operator_div_def plus_Vec2_def field_simps)

section \<open>Rounding\<close>

lemma pow2_powr: "pow2 e = 2 powr (real_of_int e)"
  by (simp add: pow2_def powr_real_of_int inverse_eq_divide)

lemma ulp_exponent_binade:
  assumes "pow2 i \<le> r" "r < pow2 (i + 1)"
  shows "ulp_exponent r = max (i - 23) (- 149)"
proof -
  have "0 < pow2 i" by (simp add: pow2_powr)
  with assms have "0 < r" by linarith
  moreover have "2 powr (real_of_int i) \<le> r \<and> r < 2 powr (real_of_int (i + 1))"
    using assms by (simp add: pow2_powr)
  ultimately have "\<lfloor>log 2 r\<rfloor> = i"
    using floor_log_eq_powr_iff [of r 2 i] by simp
  then show ?thesis by (simp add: ulp_exponent_def)
qed

text \<open>The rounding of a magnitude in the binade \<open>[2^i, 2^(i+1))\<close>.\<close>

lemma round32_binade:
  assumes "pow2 i \<le> r" "r < pow2 (i + 1)"
  shows "round32 s r =
     (let e = max (i - 23) (- 149);
          v = real_of_int (round_even (r / pow2 e)) * pow2 e
      in if v \<ge> 2 ^ 128 then Infinity s else Finite s v)"
proof -
  have "0 < pow2 i" by (simp add: pow2_powr)
  with assms have "r \<noteq> 0" by linarith
  then show ?thesis
    by (simp add: round32_def ulp_exponent_binade [OF assms])
qed

lemma round32_0: "round32 s 0 = Finite s 0"
  by (simp add: round32_def)

text \<open>
  The roundings that the examples below need. \<open>16 / 9\<close> becomes \<open>14913081 / 2^23\<close>, \<open>7 / 10\<close>
  becomes \<open>11744051 / 2^24\<close> and \<open>9 / 10\<close> becomes \<open>15099494 / 2^24\<close>.
\<close>

lemma round32_1: "round32 False (1) = Finite False 1"
  by (subst round32_binade [of "0"]) (simp_all add: pow2_def round_even_def Let_def)

lemma round32_2: "round32 False (2) = Finite False 2"
  by (subst round32_binade [of "1"]) (simp_all add: pow2_def round_even_def Let_def)

lemma round32_3: "round32 False (3) = Finite False 3"
  by (subst round32_binade [of "1"]) (simp_all add: pow2_def round_even_def Let_def)

lemma round32_6: "round32 False (6) = Finite False 6"
  by (subst round32_binade [of "2"]) (simp_all add: pow2_def round_even_def Let_def)

lemma round32_100: "round32 False (100) = Finite False 100"
  by (subst round32_binade [of "6"]) (simp_all add: pow2_def round_even_def Let_def)

lemma round32_200: "round32 False (200) = Finite False 200"
  by (subst round32_binade [of "7"]) (simp_all add: pow2_def round_even_def Let_def)

lemma round32_924: "round32 False (924) = Finite False 924"
  by (subst round32_binade [of "9"]) (simp_all add: pow2_def round_even_def Let_def)

lemma round32_16_9: "round32 False (16 / 9) = Finite False (14913081 / 8388608)"
  by (subst round32_binade [of "0"]) (simp_all add: pow2_def round_even_def Let_def)

lemma round32_100_16_9: "round32 False (372827025 / 2097152) = Finite False (11650845 / 65536)"
  by (subst round32_binade [of "7"]) (simp_all add: pow2_def round_even_def Let_def)

lemma round32_7_10: "round32 False (7 / 10) = Finite False (11744051 / 16777216)"
  by (subst round32_binade [of "-1"]) (simp_all add: pow2_def round_even_def Let_def)

lemma round32_07: "round32 False (11744051 / 16777216) = Finite False (11744051 / 16777216)"
  by (subst round32_binade [of "-1"]) (simp_all add: pow2_def round_even_def Let_def)

lemma round32_924_07: "round32 False (2712875781 / 4194304) = Finite False (10597171 / 16384)"
  by (subst round32_binade [of "9"]) (simp_all add: pow2_def round_even_def Let_def)

lemma round32_9_10: "round32 False (9 / 10) = Finite False (7549747 / 8388608)"
  by (subst round32_binade [of "-1"]) (simp_all add: pow2_def round_even_def Let_def)

lemma round32_09: "round32 False (7549747 / 8388608) = Finite False (7549747 / 8388608)"
  by (subst round32_binade [of "-1"]) (simp_all add: pow2_def round_even_def Let_def)

lemma round32_3_09: "round32 False (22649241 / 8388608) = Finite False (2831155 / 1048576)"
  by (subst round32_binade [of "1"]) (simp_all add: pow2_def round_even_def Let_def)

lemma round32_3_09_09: "round32 False (22649240 / 7549747) = Finite False (12582911 / 4194304)"
  by (subst round32_binade [of "1"]) (simp_all add: pow2_def round_even_def Let_def)

lemma round32_overflow: "round32 False (2 ^ 128) = Infinity False"
  by (subst round32_binade [of 128]) (simp_all add: pow2_def round_even_def Let_def)

lemmas round32_values = round32_0 round32_1 round32_2 round32_3 round32_6 round32_100
  round32_200 round32_924 round32_16_9 round32_100_16_9 round32_7_10 round32_07
  round32_924_07 round32_9_10 round32_09 round32_3_09 round32_3_09_09

lemmas binary32_ops = plus_binary32_def minus_binary32_def times_binary32_def
  divide_binary32_def less_binary32_def signed_def float32_def

section \<open>Scaling and dividing a vector\<close>

text \<open>In exact arithmetic \<open>operator/\<close> undoes \<open>operator*\<close> for a factor other than zero.\<close>

lemma operator_div_operator_mul:
  "k \<noteq> 0 \<Longrightarrow> operator_div (operator_mul v k) k = (v :: ImVec2)"
  by (simp add: operator_div_def operator_mul_def)





text \<open>A product that overflows is not undone either: \<open>2^127 * 2\<close> is infinite.\<close>

lemma scale_overflow:
  "(Finite False (2 ^ 127) * Finite False 2) / Finite False 2 = Infinity False"
  using round32_overflow by (simp add: times_binary32_def divide_binary32_def)

section \<open>Fitting a frame\<close>

text \<open>
  C4. With \<open>A_in = I.x / I.y\<close> and \<open>A_out = F.x / F.y\<close>, \<open>FrameWithin\<close> returns
  \<open>(F.x - 2p, (F.x - 2p) / A_in)\<close> when \<open>A_in > A_out\<close> and
  \<open>((F.y - 2p) * A_in, F.y - 2p)\<close> otherwise, the quotients, the comparison and the
  arithmetic being those of the floats. A frame of 16 by 9 in one of 200 by 100 without
  padding is fitted by height: \<open>16 / 9\<close> is not greater than 2, \<open>y = 100\<close> and
  \<open>x = 100 * (16 / 9)\<close>, the float \<open>11650845 / 2^16\<close>, about 177.8.
\<close>

theorem FrameWithin_formula:
  "(x I / y I > x F / y F \<longrightarrow>
      FrameWithin F I p = ImVec2 (x F - float32 2 * p) ((x F - float32 2 * p) / (x I / y I)))
   \<and> (\<not> x I / y I > x F / y F \<longrightarrow>
      FrameWithin F I p = ImVec2 ((y F - float32 2 * p) * (x I / y I)) (y F - float32 2 * p))
   \<and> \<not> Finite False 16 / Finite False 9 > Finite False 200 / Finite False 100
   \<and> FrameWithin (ImVec2 (Finite False 200) (Finite False 100))
        (ImVec2 (Finite False 16) (Finite False 9)) (Finite False 0) =
       ImVec2 (Finite False 100 * (Finite False 16 / Finite False 9)) (Finite False 100)
   \<and> Finite False 100 * (Finite False 16 / Finite False 9) = Finite False (11650845 / 65536)
   \<and> \<bar>11650845 / 65536 - 177.8\<bar> < (0.05 :: real)"
proof (intro conjI impI)
  show "Finite False 100 * (Finite False 16 / Finite False 9) = Finite False (11650845 / 65536)"
    by (simp add: binary32_ops round32_values)
  show "\<not> Finite False 16 / Finite False 9 > Finite False 200 / Finite False 100"
    by (simp add: binary32_ops round32_values)
  then show "FrameWithin (ImVec2 (Finite False 200) (Finite False 100))
        (ImVec2 (Finite False 16) (Finite False 9)) (Finite False 0) =
       ImVec2 (Finite False 100 * (Finite False 16 / Finite False 9)) (Finite False 100)"
    by (simp add: FrameWithin_def Let_def) (simp add: binary32_ops round32_values)
qed (simp_all add: FrameWithin_def Let_def)

text \<open>
  An inner frame of height zero in a frame of 200 by 100: \<open>16 / 0\<close> is infinite and greater
  than 2, the frame is fitted by width, and \<open>200\<close> divided by the infinite ratio is 0.
\<close>

theorem FrameWithin_formula_witness:
  "FrameWithin (ImVec2 (Finite False 200) (Finite False 100))
     (ImVec2 (Finite False 16) (Finite False 0)) (Finite False 0) =
   ImVec2 (Finite False 200) (Finite False 0)"
proof -
  have "Finite False 16 / Finite False 0 > Finite False 200 / Finite False 100"
    by (simp add: binary32_ops round32_values)
  then show ?thesis
    using FrameWithin_formula [where I = "ImVec2 (Finite False 16) (Finite False 0)"
        and F = "ImVec2 (Finite False 200) (Finite False 100)" and p = "Finite False 0"]
    by (simp add: binary32_ops round32_values)
qed

text \<open>
  Ratios that are equal as floats, though not as fractions: the outer frame
  \<open>(0.7f * 1024, 1024)\<close>, the inner frame \<open>(7, 10)\<close> and a padding of 50. \<open>7 / 10\<close> is rounded
  to \<^verbatim>\<open>0.7f\<close>, the ratio of the outer frame, so the frame is fitted by height, to
  \<open>(646.8, 924)\<close>.
\<close>

lemma FrameWithin_equal_ratios:
  "FrameWithin (ImVec2 (Finite False (11744051 / 16384)) (Finite False 1024))
     (ImVec2 (Finite False 7) (Finite False 10)) (Finite False 50) =
   ImVec2 (Finite False (10597171 / 16384)) (Finite False 924)"
  by (simp add: FrameWithin_def Let_def binary32_ops round32_values)

text \<open>
  A frame of height zero around an inner frame of height zero: both ratios are NaN, no
  comparison with NaN holds, the frame is fitted by height and its width is NaN.
\<close>

lemma FrameWithin_NaN:
  "FrameWithin (ImVec2 (Finite False 0) (Finite False 0))
     (ImVec2 (Finite False 0) (Finite False 0)) (Finite False 0) =
   ImVec2 NaN (Finite False 0)"
  by (simp add: FrameWithin_def Let_def binary32_ops round32_values)

section \<open>The scale of a window\<close>

lemma updateScale_unchanged:
  "x (WorkSize imgui) = previousViewportWidth w \<Longrightarrow>
   y (WorkSize imgui) = previousViewportHeight w \<Longrightarrow>
   updateScale imgui w = ([Call GetMainViewport], w)"
  by (simp add: updateScale_def)

lemma updateScale_previousViewport:
  "previousViewportWidth (snd (updateScale imgui w)) = x (WorkSize imgui)"
  "previousViewportHeight (snd (updateScale imgui w)) = y (WorkSize imgui)"
  by (simp_all add: updateScale_def Let_def split: prod.splits)

lemma updateScale_designed:
  "designedWidth (snd (updateScale imgui w)) = designedWidth w"
  "designedHeight (snd (updateScale imgui w)) = designedHeight w"
  "designedPositionX (snd (updateScale imgui w)) = designedPositionX w"
  "designedPositionY (snd (updateScale imgui w)) = designedPositionY w"
  by (simp_all add: updateScale_def Let_def split: prod.splits)

lemma updateScale_changed_geometry:
  assumes "x (WorkSize imgui) \<noteq> previousViewportWidth w \<or>
           y (WorkSize imgui) \<noteq> previousViewportHeight w"
  shows "dimensions (snd (updateScale imgui w)) =
           ImVec2 (designedWidth w * scaleX (snd (updateScale imgui w)))
                  (designedHeight w * scaleY (snd (updateScale imgui w)))"
    and "position (snd (updateScale imgui w)) =
           ImVec2 (designedPositionX w * scaleX (snd (updateScale imgui w)))
                  (designedPositionY w * scaleY (snd (updateScale imgui w)))"
  using assms by (auto simp add: updateScale_def Let_def split: prod.splits)

lemma updateScale_keeps_geometry:
  assumes "dimensions w = ImVec2 (designedWidth w * scaleX w) (designedHeight w * scaleY w)"
    and "position w = ImVec2 (designedPositionX w * scaleX w) (designedPositionY w * scaleY w)"
  shows "dimensions (snd (updateScale imgui w)) =
           ImVec2 (designedWidth w * scaleX (snd (updateScale imgui w)))
                  (designedHeight w * scaleY (snd (updateScale imgui w)))
         \<and> position (snd (updateScale imgui w)) =
           ImVec2 (designedPositionX w * scaleX (snd (updateScale imgui w)))
                  (designedPositionY w * scaleY (snd (updateScale imgui w)))"
proof (cases "x (WorkSize imgui) \<noteq> previousViewportWidth w \<or>
              y (WorkSize imgui) \<noteq> previousViewportHeight w")
  case True
  then show ?thesis
    using updateScale_changed_geometry [of imgui w] by simp
next
  case False
  then have "snd (updateScale imgui w) = w"
    by (simp add: updateScale_unchanged)
  with assms show ?thesis by simp
qed

lemma updateScale_scale:
  "scaleX (snd (updateScale imgui w)) =
     (if x (WorkSize imgui) \<noteq> previousViewportWidth w
      then x (WorkSize imgui) / DEFAULT_VIEWPORT_WIDTH else scaleX w)"
  "scaleY (snd (updateScale imgui w)) =
     (if y (WorkSize imgui) \<noteq> previousViewportHeight w
      then y (WorkSize imgui) / DEFAULT_VIEWPORT_HEIGHT else scaleY w)"
  by (simp_all add: updateScale_def Let_def split: prod.splits)

lemma updateScale_assigns:
  "Assign ''scaleX'' \<in> set (fst (updateScale imgui w)) \<longleftrightarrow>
     x (WorkSize imgui) \<noteq> previousViewportWidth w"
  "Assign ''scaleY'' \<in> set (fst (updateScale imgui w)) \<longleftrightarrow>
     y (WorkSize imgui) \<noteq> previousViewportHeight w"
  by (simp_all add: updateScale_def Let_def split: prod.splits)

text \<open>
  C2. \<open>updateScale\<close> assigns \<open>scaleX\<close> if and only if the width of the viewport differs from
  \<open>previousViewportWidth\<close>, and \<open>scaleY\<close> if and only if the height differs from
  \<open>previousViewportHeight\<close>, each axis on its own. When neither differs it assigns nothing
  and leaves the window as it was; so does a second update under the same viewport.
\<close>

theorem updateScale_memo:
  "(Assign ''scaleX'' \<in> set (fst (updateScale imgui w)) \<longleftrightarrow>
      x (WorkSize imgui) \<noteq> previousViewportWidth w)
   \<and> (Assign ''scaleY'' \<in> set (fst (updateScale imgui w)) \<longleftrightarrow>
      y (WorkSize imgui) \<noteq> previousViewportHeight w)
   \<and> scaleX (snd (updateScale imgui w)) =
       (if x (WorkSize imgui) \<noteq> previousViewportWidth w
        then x (WorkSize imgui) / DEFAULT_VIEWPORT_WIDTH else scaleX w)
   \<and> scaleY (snd (updateScale imgui w)) =
       (if y (WorkSize imgui) \<noteq> previousViewportHeight w
        then y (WorkSize imgui) / DEFAULT_VIEWPORT_HEIGHT else scaleY w)
   \<and> (x (WorkSize imgui) = previousViewportWidth w \<and>
       y (WorkSize imgui) = previousViewportHeight w \<longrightarrow>
         updateScale imgui w = ([Call GetMainViewport], w))
   \<and> updateScale imgui (snd (updateScale imgui w)) =
       ([Call GetMainViewport], snd (updateScale imgui w))"
proof (intro conjI impI)
  show "updateScale imgui (snd (updateScale imgui w)) =
      ([Call GetMainViewport], snd (updateScale imgui w))"
    by (rule updateScale_unchanged) (simp_all add: updateScale_previousViewport)
qed (simp_all add: updateScale_assigns updateScale_scale updateScale_unchanged)

text \<open>
  A new window under the viewport of 3840 by 2160 is left alone; under a viewport of
  1920 by 2160 only the horizontal scale is assigned.
\<close>

theorem updateScale_memo_witness:
  "updateScale \<lparr>WorkSize = ImVec2 3840 2160, Time = 0, ImGuiWindowFlags_NoBackground = 128\<rparr>
       (Window_Window ''panel'' 100 100 10 20) =
     ([Call GetMainViewport], Window_Window ''panel'' 100 100 10 20)
   \<and> Assign ''scaleX'' \<in> set (fst (updateScale
         \<lparr>WorkSize = ImVec2 1920 2160, Time = 0, ImGuiWindowFlags_NoBackground = 128\<rparr>
         (Window_Window ''panel'' 100 100 10 20)))
   \<and> Assign ''scaleY'' \<notin> set (fst (updateScale
         \<lparr>WorkSize = ImVec2 1920 2160, Time = 0, ImGuiWindowFlags_NoBackground = 128\<rparr>
         (Window_Window ''panel'' 100 100 10 20)))"
  using
    updateScale_memo [of "\<lparr>WorkSize = ImVec2 3840 2160, Time = 0,
      ImGuiWindowFlags_NoBackground = 128\<rparr>" "Window_Window ''panel'' 100 100 10 20"]
    updateScale_memo [of "\<lparr>WorkSize = ImVec2 1920 2160, Time = 0,
      ImGuiWindowFlags_NoBackground = 128\<rparr>" "Window_Window ''panel'' 100 100 10 20"]
  by (simp add: Window_Window_def DEFAULT_VIEWPORT_WIDTH_def DEFAULT_VIEWPORT_HEIGHT_def)

text \<open>
  C6. A window designed at 100 by 100 that observes a viewport of 1920 by 1080 has the
  scale \<open>(1/2, 1/2)\<close> and the dimensions \<open>(50, 50)\<close>. An update that sees a changed viewport
  sets \<open>dimensions = (designedWidth * scaleX, designedHeight * scaleY)\<close> and
  \<open>position = (designedPositionX * scaleX, designedPositionY * scaleY)\<close>, and both
  equations hold after any sequence of updates of a new window.
\<close>

theorem updateScale_geometry:
  "(let w = snd (updateScale (imgui\<lparr>WorkSize := ImVec2 1920 1080\<rparr>)
                  (Window_Window t 100 100 posX posY))
    in scaleX w = 1 / 2 \<and> scaleY w = 1 / 2 \<and> dimensions w = ImVec2 50 50)
   \<and> (x (WorkSize g) \<noteq> previousViewportWidth w \<or>
       y (WorkSize g) \<noteq> previousViewportHeight w \<longrightarrow>
        (let w' = snd (updateScale g w)
         in dimensions w' = ImVec2 (designedWidth w' * scaleX w') (designedHeight w' * scaleY w')
            \<and> position w' =
                ImVec2 (designedPositionX w' * scaleX w') (designedPositionY w' * scaleY w')))
   \<and> (let w' = fold (\<lambda>g w. snd (updateScale g w)) observations
                  (Window_Window t dWidth dHeight posX posY)
       in dimensions w' = ImVec2 (designedWidth w' * scaleX w') (designedHeight w' * scaleY w')
          \<and> position w' =
              ImVec2 (designedPositionX w' * scaleX w') (designedPositionY w' * scaleY w'))"
proof (intro conjI impI)
  show "let w = snd (updateScale (imgui\<lparr>WorkSize := ImVec2 1920 1080\<rparr>)
                  (Window_Window t 100 100 posX posY))
    in scaleX w = 1 / 2 \<and> scaleY w = 1 / 2 \<and> dimensions w = ImVec2 50 50"
    by (simp add: updateScale_def Window_Window_def Let_def DEFAULT_VIEWPORT_WIDTH_def
        DEFAULT_VIEWPORT_HEIGHT_def)
next
  assume "x (WorkSize g) \<noteq> previousViewportWidth w \<or>
          y (WorkSize g) \<noteq> previousViewportHeight w"
  then show "let w' = snd (updateScale g w)
         in dimensions w' = ImVec2 (designedWidth w' * scaleX w') (designedHeight w' * scaleY w')
            \<and> position w' =
                ImVec2 (designedPositionX w' * scaleX w') (designedPositionY w' * scaleY w')"
    using updateScale_changed_geometry [of g w] by (simp add: Let_def updateScale_designed)
next
  let ?f = "\<lambda>g w. snd (updateScale g w)"
  let ?geometry = "\<lambda>w. dimensions w = ImVec2 (designedWidth w * scaleX w) (designedHeight w * scaleY w)
      \<and> position w = ImVec2 (designedPositionX w * scaleX w) (designedPositionY w * scaleY w)"
  have "?geometry (fold ?f observations (Window_Window t dWidth dHeight posX posY))"
  proof (induction observations rule: rev_induct)
    case Nil
    show ?case by (simp add: Window_Window_def)
  next
    case (snoc g gs)
    then show ?case
      using updateScale_keeps_geometry
        [of "fold ?f gs (Window_Window t dWidth dHeight posX posY)" g]
      by (simp add: updateScale_designed)
  qed
  then show "let w' = fold ?f observations (Window_Window t dWidth dHeight posX posY)
       in dimensions w' = ImVec2 (designedWidth w' * scaleX w') (designedHeight w' * scaleY w')
          \<and> position w' =
              ImVec2 (designedPositionX w' * scaleX w') (designedPositionY w' * scaleY w')"
    by (simp add: Let_def)
qed

text \<open>
  A window designed at 200 by 100 and placed at \<open>(40, 20)\<close>, under a viewport of 960 by
  1080: the scale is \<open>(1/4, 1/2)\<close>.
\<close>

theorem updateScale_geometry_witness:
  "dimensions (snd (updateScale
       \<lparr>WorkSize = ImVec2 960 1080, Time = 0, ImGuiWindowFlags_NoBackground = 128\<rparr>
       (Window_Window ''panel'' 200 100 40 20))) = ImVec2 50 50
   \<and> position (snd (updateScale
       \<lparr>WorkSize = ImVec2 960 1080, Time = 0, ImGuiWindowFlags_NoBackground = 128\<rparr>
       (Window_Window ''panel'' 200 100 40 20))) = ImVec2 10 10"
proof -
  let ?g = "\<lparr>WorkSize = ImVec2 960 1080, Time = 0, ImGuiWindowFlags_NoBackground = 128\<rparr>"
  let ?w = "Window_Window ''panel'' 200 100 40 20"
  have changed: "x (WorkSize ?g) \<noteq> previousViewportWidth ?w \<or>
      y (WorkSize ?g) \<noteq> previousViewportHeight ?w"
    by (simp add: Window_Window_def DEFAULT_VIEWPORT_WIDTH_def)
  have scale: "scaleX (snd (updateScale ?g ?w)) = 1 / 4" "scaleY (snd (updateScale ?g ?w)) = 1 / 2"
    by (simp_all add: updateScale_scale Window_Window_def DEFAULT_VIEWPORT_WIDTH_def
        DEFAULT_VIEWPORT_HEIGHT_def)
  have designed: "designedWidth ?w = 200" "designedHeight ?w = 100"
      "designedPositionX ?w = 40" "designedPositionY ?w = 20"
    by (simp_all add: Window_Window_def)
  from updateScale_geometry [where g = ?g and w = ?w] changed show ?thesis
    by (simp add: Let_def updateScale_designed scale designed)
qed

section \<open>The order of a render pass\<close>

lemma buildStart_window:
  "snd (buildStart DEBUG imgui w) = (if DEBUG then snd (updateScale imgui w) else w)"
  by (simp add: buildStart_def Let_def case_prod_beta)

lemma updateScale_other:
  "hasBackground (snd (updateScale imgui w)) = hasBackground w"
  "backgroundColor (snd (updateScale imgui w)) = backgroundColor w"
  "title (snd (updateScale imgui w)) = title w"
  "flags (snd (updateScale imgui w)) = flags w"
  by (simp_all add: updateScale_def Let_def split: prod.splits)

lemma buildStart_effects:
  "fst (buildStart DEBUG imgui w) =
     (if DEBUG then fst (updateScale imgui w) else [])
     @ (if hasBackground w then [Call (PushStyleColor ImGuiCol_WindowBg (backgroundColor w))] else [])
     @ [Call (SetNextWindowPos (position (snd (buildStart DEBUG imgui w))) ImGuiCond_FirstUseEver),
        Call (SetNextWindowSize (dimensions (snd (buildStart DEBUG imgui w))) ImGuiCond_FirstUseEver),
        Call (Begin (title w)
          (if hasBackground w then flags w else flags w OR ImGuiWindowFlags_NoBackground imgui))]
     @ (if hasBackground w then [Call PopStyleColor] else [])"
  by (simp add: buildStart_def Let_def case_prod_beta updateScale_other)

text \<open>
  C3. \<open>render\<close> reads the time, updates the scale when compiled with \<^verbatim>\<open>DEBUG\<close>, opens the
  region (the background colour is pushed before \<^verbatim>\<open>Begin\<close> and popped right after it when
  the background is visible), runs \<open>draw\<close>, and, when \<open>draw\<close> returns, closes the region
  with \<^verbatim>\<open>End\<close>, in this order. When \<open>draw\<close> throws, \<open>render\<close> ends there with the exception:
  the region stays open.
\<close>

theorem render_order:
  assumes "draw (snd (buildStart DEBUG imgui (w\<lparr>currentTime := Time imgui\<rparr>))) = (c, w', thrown)"
  shows "render DEBUG imgui draw w =
     (map Own
        ([Call GetTime, Assign ''currentTime'']
         @ (if DEBUG then fst (updateScale imgui (w\<lparr>currentTime := Time imgui\<rparr>)) else [])
         @ (if hasBackground w
            then [Call (PushStyleColor ImGuiCol_WindowBg (backgroundColor w))] else [])
         @ [Call (SetNextWindowPos
                   (position (snd (buildStart DEBUG imgui (w\<lparr>currentTime := Time imgui\<rparr>))))
                   ImGuiCond_FirstUseEver),
            Call (SetNextWindowSize
                   (dimensions (snd (buildStart DEBUG imgui (w\<lparr>currentTime := Time imgui\<rparr>))))
                   ImGuiCond_FirstUseEver),
            Call (Begin (title w)
                   (if hasBackground w then flags w
                    else flags w OR ImGuiWindowFlags_NoBackground imgui))]
         @ (if hasBackground w then [Call PopStyleColor] else []))
      @ map Content c
      @ (case thrown of None \<Rightarrow> [Own (Call End)] | Some ex \<Rightarrow> []),
      w', thrown)"
proof -
  let ?w = "w\<lparr>currentTime := Time imgui\<rparr>"
  have "render DEBUG imgui draw w =
     (map Own ([Call GetTime, Assign ''currentTime''] @ fst (buildStart DEBUG imgui ?w))
      @ map Content c
      @ (case thrown of None \<Rightarrow> [Own (Call End)] | Some ex \<Rightarrow> []),
      w', thrown)"
    using assms by (cases thrown) (simp_all add: render_def buildEnd_def Let_def case_prod_beta)
  then show ?thesis
    by (simp add: buildStart_effects [of DEBUG imgui ?w])
qed

text \<open>A render pass without \<^verbatim>\<open>DEBUG\<close> whose \<open>draw\<close> returns.\<close>

theorem render_order_witness:
  "fst (render False \<lparr>WorkSize = ImVec2 3840 2160, Time = 0, ImGuiWindowFlags_NoBackground = 128\<rparr>
          returning_draw (Window_Window ''panel'' 100 100 10 20)) =
     [Own (Call GetTime), Own (Assign ''currentTime''),
      Own (Call (PushStyleColor ImGuiCol_WindowBg DEFAULT_BG)),
      Own (Call (SetNextWindowPos (ImVec2 10 20) ImGuiCond_FirstUseEver)),
      Own (Call (SetNextWindowSize (ImVec2 100 100) ImGuiCond_FirstUseEver)),
      Own (Call (Begin ''panel'' 0)),
      Own (Call PopStyleColor),
      Content (),
      Own (Call End)]"
proof -
  let ?g = "\<lparr>WorkSize = ImVec2 3840 2160, Time = 0, ImGuiWindowFlags_NoBackground = 128\<rparr>"
  let ?w = "Window_Window ''panel'' 100 100 10 20"
  let ?w1 = "snd (buildStart False ?g (?w\<lparr>currentTime := Time ?g\<rparr>))"
  have "returning_draw ?w1 = ([()], ?w1, None)"
    by (simp add: returning_draw_def)
  from render_order [where draw = returning_draw and DEBUG = False and imgui = ?g and w = ?w,
      OF this]
  show ?thesis
    by (simp add: buildStart_window Window_Window_def)
qed

text \<open>
  A render pass whose \<open>draw\<close> throws: \<^verbatim>\<open>Begin\<close> has been called and \<^verbatim>\<open>End\<close> is not.
\<close>

theorem render_unpaired_counterexample:
  "Own (Call (Begin ''panel'' 0)) \<in> set (fst (render False
       \<lparr>WorkSize = ImVec2 3840 2160, Time = 0, ImGuiWindowFlags_NoBackground = 128\<rparr>
       throwing_draw (Window_Window ''panel'' 100 100 10 20)))
   \<and> Own (Call End) \<notin> set (fst (render False
       \<lparr>WorkSize = ImVec2 3840 2160, Time = 0, ImGuiWindowFlags_NoBackground = 128\<rparr>
       throwing_draw (Window_Window ''panel'' 100 100 10 20)))
   \<and> snd (snd (render False
       \<lparr>WorkSize = ImVec2 3840 2160, Time = 0, ImGuiWindowFlags_NoBackground = 128\<rparr>
       throwing_draw (Window_Window ''panel'' 100 100 10 20))) =
       Some (runtime_error ''TextureLoader.LoadTexture: Failed to load texture'')"
  by (simp add: render_def buildStart_def throwing_draw_def Window_Window_def Let_def)

section \<open>Populating a grid\<close>

lemma size_to_int_le: "size_to_int n \<le> int n"
proof -
  have "(int n + 2 ^ 31) mod 2 ^ 32 \<le> int n + 2 ^ 31"
    by (rule zmod_le_nonneg_dividend) simp
  then show ?thesis by (simp add: size_to_int_def)
qed

lemma size_to_int_max: "size_to_int n \<le> INT_MAX"
proof -
  have "(int n + 2 ^ 31) mod 2 ^ 32 < 2 ^ 32"
    by simp
  then show ?thesis by (simp add: size_to_int_def INT_MAX_def)
qed

lemma size_to_int_id: "int n \<le> INT_MAX \<Longrightarrow> size_to_int n = int n"
  by (simp add: size_to_int_def INT_MAX_def)

lemma PopulateGrid_columns_result:
  assumes "0 < columns" "0 \<le> currentRow" "0 \<le> currentColumn" "currentColumn \<le> columns"
    and "cellIndex = currentRow * columns + currentColumn"
    and "imageCount \<le> int (length images)" "imageCount \<le> INT_MAX"
    and "currentColumn = columns \<longrightarrow> cellIndex \<le> imageCount"
  shows "PopulateGrid_columns images origin columns hdisp vdisp cfs imageCount currentRow
           currentColumn cellIndex out =
         (if currentRow * columns + columns \<le> imageCount then
            Inr (LoopEnd, currentRow * columns + columns,
                 out @ map (cell_call images origin columns hdisp vdisp cfs)
                         [nat cellIndex ..< nat (currentRow * columns + columns)])
          else
            Inr (Returned, max cellIndex imageCount,
                 out @ map (cell_call images origin columns hdisp vdisp cfs)
                         [nat cellIndex ..< nat imageCount]))"
  using assms
proof (induction images origin columns hdisp vdisp cfs imageCount currentRow currentColumn cellIndex out
    rule: PopulateGrid_columns.induct)
  case (1 images origin columns hdisp vdisp cfs imageCount currentRow currentColumn cellIndex out)
  note simps = PopulateGrid_columns.simps
    [of images origin columns hdisp vdisp cfs imageCount currentRow currentColumn cellIndex out]
  show ?case
  proof (cases "currentColumn < columns")
    case False
    with "1.prems" have "currentColumn = columns" by simp
    with "1.prems" show ?thesis
      by (subst simps) simp
  next
    case inrow: True
    show ?thesis
    proof (cases "imageCount \<le> cellIndex")
      case True
      with inrow "1.prems" show ?thesis
        by (subst simps) (simp add: max_def)
    next
      case False
      then have lt: "cellIndex < imageCount" by simp
      have nonneg: "0 \<le> currentRow * columns"
        using "1.prems" by simp
      have idx0: "0 \<le> cellIndex"
        using "1.prems" nonneg by simp
      have "in_int (currentRow * columns)"
        unfolding in_int_def INT_MIN_def
        using nonneg lt \<open>cellIndex = currentRow * columns + currentColumn\<close>
          \<open>0 \<le> currentColumn\<close> \<open>imageCount \<le> INT_MAX\<close>
        by linarith
      then have mul: "int_mul currentRow columns = Inr (currentRow * columns)"
        by (simp add: int_mul_def)
      have "in_int cellIndex"
        unfolding in_int_def INT_MIN_def
        using idx0 lt \<open>imageCount \<le> INT_MAX\<close> by linarith
      then have add: "int_add (currentRow * columns) currentColumn = Inr cellIndex"
        using \<open>cellIndex = currentRow * columns + currentColumn\<close> by (simp add: int_add_def)
      have at: "vector_at images cellIndex = Inr (images ! nat cellIndex)"
        using "1.prems" lt idx0 by (simp add: vector_at_def)
      have dm: "cellIndex mod columns = currentColumn" "cellIndex div columns = currentRow"
        using "1.prems" inrow by simp_all
      have call: "Draw_Image (images ! nat cellIndex)
            (origin + ImVec2 (real_of_int currentColumn * hdisp) (real_of_int currentRow * vdisp)) cfs 0
          = cell_call images origin columns hdisp vdisp cfs (nat cellIndex)"
        using idx0 dm by (simp add: cell_call_def)
      have IH: "PopulateGrid_columns images origin columns hdisp vdisp cfs imageCount currentRow
           (currentColumn + 1) (cellIndex + 1)
           (out @ [cell_call images origin columns hdisp vdisp cfs (nat cellIndex)]) =
         (if currentRow * columns + columns \<le> imageCount then
            Inr (LoopEnd, currentRow * columns + columns,
                 (out @ [cell_call images origin columns hdisp vdisp cfs (nat cellIndex)])
                 @ map (cell_call images origin columns hdisp vdisp cfs)
                         [nat (cellIndex + 1) ..< nat (currentRow * columns + columns)])
          else
            Inr (Returned, max (cellIndex + 1) imageCount,
                 (out @ [cell_call images origin columns hdisp vdisp cfs (nat cellIndex)])
                 @ map (cell_call images origin columns hdisp vdisp cfs)
                         [nat (cellIndex + 1) ..< nat imageCount]))"
        using "1.IH" [OF inrow False refl mul add at] "1.prems" inrow lt call by simp
      have suc: "nat (cellIndex + 1) = Suc (nat cellIndex)"
        using idx0 by simp
      have "nat cellIndex < nat imageCount"
        using lt idx0 by linarith
      then have r1: "[nat cellIndex ..< nat imageCount] =
          nat cellIndex # [nat (cellIndex + 1) ..< nat imageCount]"
        by (simp only: suc upt_conv_Cons)
      have "cellIndex < currentRow * columns + columns"
        using \<open>cellIndex = currentRow * columns + currentColumn\<close> inrow by linarith
      then have "nat cellIndex < nat (currentRow * columns + columns)"
        using idx0 by linarith
      then have r2: "[nat cellIndex ..< nat (currentRow * columns + columns)] =
          nat cellIndex # [nat (cellIndex + 1) ..< nat (currentRow * columns + columns)]"
        by (simp only: suc upt_conv_Cons)
      have "PopulateGrid_columns images origin columns hdisp vdisp cfs imageCount currentRow
           currentColumn cellIndex out =
         PopulateGrid_columns images origin columns hdisp vdisp cfs imageCount currentRow
           (currentColumn + 1) (cellIndex + 1)
           (out @ [cell_call images origin columns hdisp vdisp cfs (nat cellIndex)])"
        using inrow False by (subst simps) (simp add: mul add at call Let_def)
      with IH lt show ?thesis
        by (simp add: r1 r2 max_def)
    qed
  qed
qed


lemma PopulateGrid_rows_result:
  assumes "0 < columns" "0 \<le> currentRow" "currentRow \<le> rows"
    and "cellIndex = currentRow * columns"
    and "imageCount \<le> int (length images)" "imageCount \<le> INT_MAX"
  shows "PopulateGrid_rows images origin columns rows hdisp vdisp cfs imageCount currentRow
           cellIndex out =
         Inr (out @ map (cell_call images origin columns hdisp vdisp cfs)
                      [nat cellIndex ..< nat (min imageCount (rows * columns))])"
  using assms
proof (induction images origin columns rows hdisp vdisp cfs imageCount currentRow cellIndex out
    rule: PopulateGrid_rows.induct)
  case (1 images origin columns rows hdisp vdisp cfs imageCount currentRow cellIndex out)
  note simps = PopulateGrid_rows.simps
    [of images origin columns rows hdisp vdisp cfs imageCount currentRow cellIndex out]
  show ?case
  proof (cases "currentRow < rows")
    case False
    with "1.prems" have "currentRow = rows" by simp
    with "1.prems" show ?thesis
      by (subst simps) simp
  next
    case inside: True
    have inner: "PopulateGrid_columns images origin columns hdisp vdisp cfs imageCount currentRow
           0 cellIndex out =
         (if currentRow * columns + columns \<le> imageCount then
            Inr (LoopEnd, currentRow * columns + columns,
                 out @ map (cell_call images origin columns hdisp vdisp cfs)
                         [nat cellIndex ..< nat (currentRow * columns + columns)])
          else
            Inr (Returned, max cellIndex imageCount,
                 out @ map (cell_call images origin columns hdisp vdisp cfs)
                         [nat cellIndex ..< nat imageCount]))"
      using "1.prems" by (intro PopulateGrid_columns_result) simp_all
    have "(currentRow + 1) * columns \<le> rows * columns"
      using inside \<open>0 < columns\<close> by (intro mult_right_mono) simp_all
    then have next_le: "currentRow * columns + columns \<le> rows * columns"
      by (simp add: algebra_simps)
    have idx0: "0 \<le> cellIndex"
      using "1.prems" by simp
    show ?thesis
    proof (cases "currentRow * columns + columns \<le> imageCount")
      case True
      have "PopulateGrid_rows images origin columns rows hdisp vdisp cfs imageCount
              (currentRow + 1) (currentRow * columns + columns)
              (out @ map (cell_call images origin columns hdisp vdisp cfs)
                         [nat cellIndex ..< nat (currentRow * columns + columns)]) =
            Inr ((out @ map (cell_call images origin columns hdisp vdisp cfs)
                         [nat cellIndex ..< nat (currentRow * columns + columns)])
                 @ map (cell_call images origin columns hdisp vdisp cfs)
                      [nat (currentRow * columns + columns) ..< nat (min imageCount (rows * columns))])"
        using inner True inside "1.prems"
        by (intro "1.IH") (simp_all add: algebra_simps)
      moreover have "[nat cellIndex ..< nat (currentRow * columns + columns)]
            @ [nat (currentRow * columns + columns) ..< nat (min imageCount (rows * columns))]
          = [nat cellIndex ..< nat (min imageCount (rows * columns))]"
      proof -
        have "nat cellIndex \<le> nat (currentRow * columns + columns)"
          using \<open>cellIndex = currentRow * columns\<close> \<open>0 < columns\<close> by linarith
        moreover have "nat (currentRow * columns + columns) \<le> nat (min imageCount (rows * columns))"
          using True next_le by linarith
        ultimately show ?thesis
          by (metis le_Suc_ex upt_add_eq_append)
      qed
      ultimately show ?thesis
        using inside inner True
        by (subst simps) (simp add: map_append [symmetric] del: map_append)
    next
      case False
      then have "min imageCount (rows * columns) = imageCount"
        using next_le by linarith
      with False inside inner show ?thesis
        by (subst simps) simp
    qed
  qed
qed

lemma PopulateGrid_result:
  assumes "0 < columns" "0 < rows"
  shows "PopulateGrid images origin columns rows cellWidth cellHeight gridlineWidth =
         Inr (map (cell_call images (origin + ImVec2 gridlineWidth gridlineWidth) columns
                     (cellWidth + gridlineWidth) (cellHeight + gridlineWidth)
                     (ImVec2 cellWidth cellHeight))
                [0 ..< nat (min (size_to_int (length images)) (rows * columns))])"
  using PopulateGrid_rows_result [of columns 0 rows 0 "size_to_int (length images)" images
      "origin + ImVec2 gridlineWidth gridlineWidth" "cellWidth + gridlineWidth"
      "cellHeight + gridlineWidth" "ImVec2 cellWidth cellHeight" "[]"] assms
  by (simp add: PopulateGrid_def Let_def size_to_int_le size_to_int_max)

text \<open>
  What \<open>PopulateGrid\<close> does for \<open>columns > 0\<close> and \<open>rows > 0\<close>. It runs without a fault:
  every index it reads lies inside the vector. It draws the images \<open>0, 1, ..., n - 1\<close> in
  this order, image \<open>k\<close> into the cell of row \<open>k div columns\<close> and column \<open>k mod columns\<close>,
  so that the index \<^verbatim>\<open>currentRow * columns + currentColumn\<close> is the value of the counter
  \<open>cellIndex\<close> at every read. Here \<open>n\<close> is the smaller of \<open>columns * rows\<close> and the size of
  the vector as \<open>imageCount\<close> holds it; for a vector of at most \<open>INT_MAX\<close> images that is
  \<open>min(images.size(), columns * rows)\<close>.
\<close>

lemma PopulateGrid_in_range:
  assumes "0 < columns" and "0 < rows"
  shows "(let n = nat (min (size_to_int (length images)) (columns * rows))
          in PopulateGrid images origin columns rows cellWidth cellHeight gridlineWidth =
               Inr (map (\<lambda>k. Draw_Image (images ! k)
                            (origin + ImVec2 gridlineWidth gridlineWidth
                             + ImVec2 (real_of_int (int k mod columns) * (cellWidth + gridlineWidth))
                                      (real_of_int (int k div columns) * (cellHeight + gridlineWidth)))
                            (ImVec2 cellWidth cellHeight) 0)
                      [0 ..< n])
             \<and> n \<le> length images
             \<and> (int (length images) \<le> INT_MAX \<longrightarrow>
                  n = min (length images) (nat (columns * rows))))"
proof -
  let ?n = "nat (min (size_to_int (length images)) (columns * rows))"
  have "cell_call images (origin + ImVec2 gridlineWidth gridlineWidth) columns
          (cellWidth + gridlineWidth) (cellHeight + gridlineWidth) (ImVec2 cellWidth cellHeight) =
        (\<lambda>k. Draw_Image (images ! k)
               (origin + ImVec2 gridlineWidth gridlineWidth
                + ImVec2 (real_of_int (int k mod columns) * (cellWidth + gridlineWidth))
                         (real_of_int (int k div columns) * (cellHeight + gridlineWidth)))
               (ImVec2 cellWidth cellHeight) 0)"
    by (rule ext) (simp add: cell_call_def)
  then have result: "PopulateGrid images origin columns rows cellWidth cellHeight gridlineWidth =
      Inr (map (\<lambda>k. Draw_Image (images ! k)
                  (origin + ImVec2 gridlineWidth gridlineWidth
                   + ImVec2 (real_of_int (int k mod columns) * (cellWidth + gridlineWidth))
                            (real_of_int (int k div columns) * (cellHeight + gridlineWidth)))
                  (ImVec2 cellWidth cellHeight) 0)
            [0 ..< ?n])"
    using PopulateGrid_result [OF assms, of images origin cellWidth cellHeight gridlineWidth]
    by (simp add: mult.commute)
  have inside: "?n \<le> length images"
    using size_to_int_le [of "length images"] by linarith
  have count: "?n = min (length images) (nat (columns * rows))"
    if "int (length images) \<le> INT_MAX"
    using size_to_int_id [OF that] by linarith
  from result inside count show ?thesis
    by (simp add: Let_def)
qed

text \<open>Three images in a grid of 2 by 2: the fourth cell stays empty.\<close>

lemma PopulateGrid_three_images:
  "PopulateGrid
     [\<lparr>tex_id = 7, tex_width = 64, tex_height = 64\<rparr>,
      \<lparr>tex_id = 8, tex_width = 64, tex_height = 64\<rparr>,
      \<lparr>tex_id = 9, tex_width = 64, tex_height = 64\<rparr>]
     (ImVec2 0 0) 2 2 10 10 2 =
   Inr [Draw_Image \<lparr>tex_id = 7, tex_width = 64, tex_height = 64\<rparr> (ImVec2 2 2) (ImVec2 10 10) 0,
        Draw_Image \<lparr>tex_id = 8, tex_width = 64, tex_height = 64\<rparr> (ImVec2 14 2) (ImVec2 10 10) 0,
        Draw_Image \<lparr>tex_id = 9, tex_width = 64, tex_height = 64\<rparr> (ImVec2 2 14) (ImVec2 10 10) 0]"
proof -
  let ?images = "[\<lparr>tex_id = 7, tex_width = 64, tex_height = 64\<rparr>,
                  \<lparr>tex_id = 8, tex_width = 64, tex_height = 64\<rparr>,
                  \<lparr>tex_id = 9, tex_width = 64, tex_height = 64\<rparr>]"
  have three: "[0 ..< 3] = [0, 1, 2]"
    by (simp add: upt_rec)
  have "size_to_int (length ?images) = 3"
    by (simp add: size_to_int_def)
  then have "nat (min (size_to_int (length ?images)) (2 * 2)) = 3"
    by simp
  then show ?thesis
    using PopulateGrid_in_range [of 2 2 ?images "ImVec2 0 0" 10 10 2]
    by (simp only: Let_def) (simp add: three plus_Vec2_def)
qed

text \<open>
  C9. \<open>PopulateGrid\<close> is to draw \<open>min(images.size(), columns * rows)\<close> images. For a vector
  of \<open>2^31\<close> images and a grid of one cell that is one image; \<^verbatim>\<open>int imageCount =
  images.size()\<close> makes \<open>imageCount\<close> the number \<open>- 2^31\<close>, the guard
  \<^verbatim>\<open>cellIndex >= imageCount\<close> holds at once, and nothing is drawn.
\<close>

theorem PopulateGrid_narrowed_count:
  "PopulateGrid (replicate (2 ^ 31) \<lparr>tex_id = 7, tex_width = 64, tex_height = 64\<rparr>)
     (ImVec2 0 0) 1 1 10 10 2 = Inr []
   \<and> min (length (replicate (2 ^ 31) \<lparr>tex_id = 7, tex_width = 64, tex_height = 64\<rparr>))
         (nat (1 * 1)) = 1"
proof -
  have "size_to_int (2 ^ 31) = - (2 ^ 31)"
    by (simp add: size_to_int_def)
  then show ?thesis
    using PopulateGrid_result [of 1 1
        "replicate (2 ^ 31) \<lparr>tex_id = 7, tex_width = 64, tex_height = 64\<rparr>" "ImVec2 0 0" 10 10 2]
    by simp
qed

end
